theory Spec2Isabelle
  imports Complex_Main "HOL-Library.Multiset"
begin

section \<open>Job search agent: scoring, normalization, ranking and coordination\<close>

text \<open>
  A shallow embedding of the Python sources \<^verbatim>\<open>src/agents/relevance_scorer.py\<close>,
  \<^verbatim>\<open>src/agents/manager.py\<close>, \<^verbatim>\<open>src/agents/notification.py\<close>,
  \<^verbatim>\<open>src/agents/job_scraper.py\<close>, \<^verbatim>\<open>src/config/settings.py\<close> and
  \<^verbatim>\<open>src/main.py\<close>.

  Conventions.
  \<^item> A Python method \<^verbatim>\<open>_name\<close> is the constant \<open>name\<close> here (an identifier cannot
    start with an underscore).
  \<^item> Python floats are modelled as exact rationals (\<^typ>\<open>rat\<close>): binary rounding of
    floating-point arithmetic is not modelled.
  \<^item> Strings are byte strings; \<^verbatim>\<open>str.lower\<close> and \<^verbatim>\<open>str.split\<close> are modelled on ASCII.
  \<^item> A raised exception is a value \<open>Inl e\<close> of a sum type.
\<close>

subsection \<open>Python exceptions\<close>

datatype error =
    KeyError string
  | TypeError
  | AttributeError
  | ApiError

text \<open>Sequencing of computations that may raise: the first exception propagates.\<close>

fun and_then :: "error + 'a \<Rightarrow> ('a \<Rightarrow> error + 'b) \<Rightarrow> error + 'b" where
  "and_then (Inl e) f = Inl e"
| "and_then (Inr x) f = f x"

subsection \<open>Python string operations\<close>

text \<open>\<^verbatim>\<open>str.lower()\<close> on ASCII: the letters A to Z (codes 65 to 90) get bit 5 set.\<close>

fun lower_char :: "char \<Rightarrow> char" where
  "lower_char (Char b0 b1 b2 b3 b4 b5 b6 b7) =
     (let n = (of_char (Char b0 b1 b2 b3 b4 b5 b6 b7) :: nat)
      in if 65 \<le> n \<and> n \<le> 90 then Char b0 b1 b2 b3 b4 True b6 b7
         else Char b0 b1 b2 b3 b4 b5 b6 b7)"

definition lower :: "string \<Rightarrow> string" where
  "lower s = map lower_char s"

text \<open>\<^verbatim>\<open>hay.startswith(needle)\<close> and the substring test \<^verbatim>\<open>needle in hay\<close>.\<close>

fun starts_with :: "string \<Rightarrow> string \<Rightarrow> bool" where
  "starts_with hay [] = True"
| "starts_with [] (n # ns) = False"
| "starts_with (h # hs) (n # ns) = (h = n \<and> starts_with hs ns)"

fun str_in :: "string \<Rightarrow> string \<Rightarrow> bool" where
  "str_in needle [] = (needle = [])"
| "str_in needle (h # hs) = (starts_with (h # hs) needle \<or> str_in needle hs)"

text \<open>
  \<^verbatim>\<open>str.split()\<close> with no argument splits on runs of whitespace and yields no empty
  words. The ASCII whitespace characters of Python are codes 9 to 13, 28 to 31 and 32.
\<close>

definition is_space :: "char \<Rightarrow> bool" where
  "is_space c = ((of_char c :: nat) \<in> {9, 10, 11, 12, 13, 28, 29, 30, 31, 32})"

fun split_ws :: "string \<Rightarrow> string \<Rightarrow> string list" where
  "split_ws acc [] = (if acc = [] then [] else [acc])"
| "split_ws acc (c # cs) =
     (if is_space c then (if acc = [] then split_ws [] cs else acc # split_ws [] cs)
      else split_ws (acc @ [c]) cs)"

definition split :: "string \<Rightarrow> string list" where
  "split s = split_ws [] s"

text \<open>\<^verbatim>\<open>s.split(',')\<close>: splitting at one separator character keeps empty pieces.\<close>

fun split_on :: "char \<Rightarrow> string \<Rightarrow> string \<Rightarrow> string list" where
  "split_on d acc [] = [acc]"
| "split_on d acc (c # cs) =
     (if c = d then acc # split_on d [] cs else split_on d (acc @ [c]) cs)"

definition strip :: "string \<Rightarrow> string" where
  "strip s = rev (dropWhile is_space (rev (dropWhile is_space s)))"

text \<open>Decimal rendering of a natural number, as \<^verbatim>\<open>str(n)\<close> does.\<close>

definition digit_char :: "nat \<Rightarrow> char" where
  "digit_char d = ''0123456789'' ! d"

fun digits :: "nat \<Rightarrow> string" where
  "digits n = (if n < 10 then [digit_char n] else digits (n div 10) @ [digit_char (n mod 10)])"

declare digits.simps [simp del]

text \<open>
  Rounding of an exact value to the nearest integer, ties to the even neighbour, as
  \<^verbatim>\<open>round\<close> and the format \<^verbatim>\<open>:.0f\<close> do.
\<close>

definition round_half_even :: "rat \<Rightarrow> int" where
  "round_half_even x =
     (let f = \<lfloor>x\<rfloor>; d = x - of_int f
      in if d < 1 / 2 then f else if 1 / 2 < d then f + 1 else if even f then f else f + 1)"

text \<open>\<^verbatim>\<open>round(x, 1)\<close>: one decimal place.\<close>

definition round1 :: "rat \<Rightarrow> rat" where
  "round1 x = of_int (round_half_even (x * 10)) / 10"

text \<open>\<^verbatim>\<open>f"{x:.0f}"\<close>, for the values the scorer formats.\<close>

definition fmt0 :: "rat \<Rightarrow> string" where
  "fmt0 x = (let r = round_half_even x
             in if r < 0 then CHR ''-'' # digits (nat (- r)) else digits (nat r))"

subsection \<open>The deterministic scorers of \<^verbatim>\<open>RelevanceScorerAgent\<close>\<close>

text \<open>
  \<^verbatim>\<open>_score_position_match(self, job_title: str, desired_role: str) -> float\<close>
  (relevance\_scorer.py, lines 130 to 153). The empty-input test is the first statement.
\<close>

definition score_position_match :: "string \<Rightarrow> string \<Rightarrow> rat" where
  "score_position_match job_title desired_role =
     (if job_title = [] \<or> desired_role = [] then 5 / 10
      else
        let jt = lower job_title; dr = lower desired_role
        in if jt = dr then 1
           else if str_in dr jt then 9 / 10
           else if str_in jt dr then 8 / 10
           else
             let job_words = set (split jt);
                 role_words = set (split dr);
                 common_words = job_words \<inter> role_words
             in if common_words \<noteq> {}
                then 7 / 10 * (of_nat (card common_words) /
                               of_nat (max (card job_words) (card role_words)))
                else 4 / 10)"

text \<open>
  \<^verbatim>\<open>_score_skills_match(self, required_skills, candidate_skills)\<close> (lines 155 to 173).
\<close>

definition score_skills_match :: "string list \<Rightarrow> string list \<Rightarrow> rat" where
  "score_skills_match required_skills candidate_skills =
     (if required_skills = [] then 7 / 10
      else if candidate_skills = [] then 3 / 10
      else
        let required_lower = map lower required_skills;
            candidate_lower = map lower candidate_skills;
            matches = length (filter (\<lambda>skill.
                        list_ex (\<lambda>candidate_skill.
                          str_in candidate_skill skill \<or> str_in skill candidate_skill)
                          candidate_lower) required_lower)
        in min 1 (of_nat matches / of_nat (length required_lower)))"

text \<open>
  \<^verbatim>\<open>_score_location_match(self, job_location, preferred_location, work_mode)\<close>
  (lines 175 to 211).
\<close>

definition city_state_match :: "string \<Rightarrow> string \<Rightarrow> bool" where
  "city_state_match preferred job_location =
     list_ex (\<lambda>part. str_in (strip part) job_location) (split_on CHR '','' [] preferred)"

definition score_location_match :: "string \<Rightarrow> string \<Rightarrow> string \<Rightarrow> rat" where
  "score_location_match job_location preferred_location work_mode =
     (if job_location = [] then 5 / 10
      else
        let jl = lower job_location
        in if work_mode = ''Remote'' \<and> str_in ''remote'' jl then 1
           else if (work_mode = ''On-site'' \<or> work_mode = ''Hybrid'') \<and> preferred_location \<noteq> []
                   \<and> str_in (lower preferred_location) jl then 1
           else if (work_mode = ''On-site'' \<or> work_mode = ''Hybrid'') \<and> preferred_location \<noteq> []
                   \<and> city_state_match (lower preferred_location) jl then 8 / 10
           else if work_mode = ''Any'' then
             (if preferred_location = [] then 7 / 10
              else if str_in (lower preferred_location) jl then 1
              else if city_state_match (lower preferred_location) jl then 8 / 10
              else 4 / 10)
           else 4 / 10)"

subsection \<open>Detailed scoring weights\<close>

text \<open>
  \<^verbatim>\<open>FINAL_SCORING_WEIGHTS\<close> of config/settings.py (lines 38 to 44): a dictionary from
  category name to weight, in the order written.
\<close>

type_synonym weights = "(string \<times> rat) list"

definition FINAL_SCORING_WEIGHTS :: weights where
  "FINAL_SCORING_WEIGHTS =
     [(''skills_match'', 40 / 100),
      (''experience_match'', 25 / 100),
      (''location_match'', 20 / 100),
      (''company_fit'', 15 / 100)]"

text \<open>The subscription \<^verbatim>\<open>d[key]\<close> raises \<^verbatim>\<open>KeyError\<close> on a missing key.\<close>

definition subscript :: "(string \<times> 'v) list \<Rightarrow> string \<Rightarrow> error + 'v" where
  "subscript d k = (case map_of d k of None \<Rightarrow> Inl (KeyError k) | Some v \<Rightarrow> Inr v)"

text \<open>\<^verbatim>\<open>d.get(key, default)\<close>, for a key that is present (\<open>Some v\<close>) or absent.\<close>

definition get_default :: "'v option \<Rightarrow> 'v \<Rightarrow> 'v" where
  "get_default entry dflt = (case entry of None \<Rightarrow> dflt | Some v \<Rightarrow> v)"

subsection \<open>Jobs, profiles and score results of the agents\<close>

text \<open>
  The job, resume and preference dictionaries that the scorer and the notifier read. Each
  key they look up is a field; \<open>None\<close> is an absent key. The values have the types the
  scoring helpers declare in their signatures (\<^verbatim>\<open>str\<close>, \<^verbatim>\<open>List[str]\<close>).
\<close>

record job_listing =
  title :: "string option"
  location :: "string option"
  required_skills :: "string list option"

record resume =
  desired_role :: "string option"
  skills :: "string list option"
  location_preference :: "string option"

record preferences =
  work_mode_preference :: "string option"

text \<open>
  The dictionary a scoring call returns: \<^verbatim>\<open>total_score\<close>, \<^verbatim>\<open>score_breakdown\<close>
  and \<^verbatim>\<open>match_details\<close>.
\<close>

record score_result =
  total_score :: rat
  score_breakdown :: "(string \<times> rat) list"
  match_details :: "(string \<times> string) list"

text \<open>
  \<^verbatim>\<open>_manual_score_job(self, job, resume_data, preferences)\<close> (relevance\_scorer.py,
  lines 83 to 128). The weights are the module constant the method reads, a parameter
  here. Python evaluates the weighted sum from left to right, so the first missing key
  is the one reported.
\<close>

definition manual_score_job ::
  "weights \<Rightarrow> job_listing \<Rightarrow> resume \<Rightarrow> preferences \<Rightarrow> error + score_result" where
  "manual_score_job W job resume_data prefs =
     (let position_match = score_position_match (get_default (title job) '''')
                             (get_default (desired_role resume_data) '''');
          skills_match = score_skills_match (get_default (required_skills job) [])
                             (get_default (skills resume_data) []);
          location_match = score_location_match (get_default (location job) '''')
                             (get_default (location_preference resume_data) '''')
                             (get_default (work_mode_preference prefs) ''Any'');
          company_match = 70;
          salary_match = 65;
          benefits_match = 60
      in and_then (subscript W ''position_match'') (\<lambda>w_position.
         and_then (subscript W ''skills_experience'') (\<lambda>w_skills.
         and_then (subscript W ''location'') (\<lambda>w_location.
         and_then (subscript W ''company_match'') (\<lambda>w_company.
         and_then (subscript W ''salary_match'') (\<lambda>w_salary.
         and_then (subscript W ''benefits'') (\<lambda>w_benefits.
           let total = (position_match * w_position + skills_match * w_skills
                        + location_match * w_location + company_match * w_company
                        + salary_match * w_salary + benefits_match * w_benefits) * 100
           in Inr \<lparr>total_score = round1 total,
                   score_breakdown =
                     [(''position_match'', position_match * 100),
                      (''skills_experience'', skills_match * 100),
                      (''location'', location_match * 100),
                      (''company_match'', company_match),
                      (''salary_match'', salary_match),
                      (''benefits'', benefits_match)],
                   match_details =
                     [(''position_match'',
                         ''The job title '' @ [CHR 0x27] @ get_default (title job) '''' @ [CHR 0x27]
                         @ '' is a '' @ fmt0 (position_match * 100)
                         @ ''% match with desired role '' @ [CHR 0x27]
                         @ get_default (desired_role resume_data) '''' @ [CHR 0x27]),
                      (''skills_experience'',
                         ''Matched '' @ fmt0 (skills_match * 100) @ ''% of required skills''),
                      (''location'', ''Location match: '' @ fmt0 (location_match * 100) @ ''%''),
                      (''company_match'', ''Company appears to be a reasonable match''),
                      (''salary_match'', ''Salary information limited''),
                      (''benefits'', ''Benefits information limited'')]\<rparr>)))))))"

text \<open>
  The search \<^verbatim>\<open>re.search(r'```json\n(.*?)\n```', content, re.DOTALL)\<close>: the text
  between the first opening fence and the first closing fence after it.
\<close>

fun find_after :: "string \<Rightarrow> string \<Rightarrow> string option" where
  "find_after pat [] = (if pat = [] then Some [] else None)"
| "find_after pat (c # cs) =
     (if starts_with (c # cs) pat then Some (drop (length pat) (c # cs)) else find_after pat cs)"

fun take_until :: "string \<Rightarrow> string \<Rightarrow> string option" where
  "take_until pat [] = (if pat = [] then Some [] else None)"
| "take_until pat (c # cs) =
     (if starts_with (c # cs) pat then Some []
      else map_option (\<lambda>r. c # r) (take_until pat cs))"

definition json_fence :: "string \<Rightarrow> string option" where
  "json_fence content =
     (case find_after (''```json'' @ [CHR 0x0A]) content of
        None \<Rightarrow> None
      | Some rest \<Rightarrow> take_until (CHR 0x0A # ''```'') rest)"

text \<open>
  \<^verbatim>\<open>_score_job(self, job, resume_data, preferences)\<close> (lines 39 to 81). The two
  collaborators are parameters: \<open>llm\<close> is the call \<^verbatim>\<open>self.llm.invoke(messages)\<close>, which
  returns the content of the response or raises, and \<open>loads\<close> is \<^verbatim>\<open>json.loads\<close>,
  with \<open>None\<close> for \<^verbatim>\<open>JSONDecodeError\<close>. The handler of that exception calls the manual
  scorer, whose own exceptions propagate.
\<close>

definition score_job ::
  "weights \<Rightarrow> (string \<Rightarrow> score_result option)
     \<Rightarrow> (job_listing \<Rightarrow> resume \<Rightarrow> preferences \<Rightarrow> error + string)
     \<Rightarrow> job_listing \<Rightarrow> resume \<Rightarrow> preferences \<Rightarrow> error + score_result" where
  "score_job W loads llm job resume_data prefs =
     and_then (llm job resume_data prefs) (\<lambda>content.
       case json_fence content of
         Some inner \<Rightarrow>
           (case loads inner of
              Some r \<Rightarrow> Inr r
            | None \<Rightarrow> manual_score_job W job resume_data prefs)
       | None \<Rightarrow>
           (case loads content of
              Some r \<Rightarrow> Inr r
            | None \<Rightarrow> manual_score_job W job resume_data prefs))"

subsection \<open>The coordinator: \<^verbatim>\<open>ManagerAgent.determine_next_step\<close>\<close>

text \<open>
  The part of the workflow state dictionary that the manager reads and writes
  (manager.py, lines 16 to 37). A flag read with \<^verbatim>\<open>state.get(flag, False)\<close> is
  \<open>False\<close> when the key is absent, so an absent flag is the value \<open>False\<close> here;
  an absent or \<^verbatim>\<open>None\<close> error log is the empty list.
\<close>

record manager_state =
  error_log :: "string list"
  resume_parsed :: bool
  jobs_scraped :: bool
  analysis_complete :: bool
  feedback_processed :: bool
  notification_sent :: bool
  current_phase :: string
  next_step :: string

definition determine_next_step :: "'a manager_state_scheme \<Rightarrow> 'a manager_state_scheme" where
  "determine_next_step state =
     (if error_log state \<noteq> [] \<and> 0 < length (error_log state)
      then state\<lparr>next_step := ''complete''\<rparr>
      else if \<not> resume_parsed state then state\<lparr>next_step := ''resume_parser''\<rparr>
      else if \<not> jobs_scraped state then state\<lparr>next_step := ''job_scraper''\<rparr>
      else if \<not> analysis_complete state then state\<lparr>next_step := ''relevance_scorer''\<rparr>
      else if \<not> feedback_processed state then state\<lparr>next_step := ''feedback_refiner''\<rparr>
      else if \<not> notification_sent state then state\<lparr>next_step := ''notification''\<rparr>
      else state\<lparr>next_step := ''complete''\<rparr>)"

subsection \<open>Sorting in descending key order\<close>

text \<open>
  \<^verbatim>\<open>xs.sort(key=key, reverse=True)\<close> and \<^verbatim>\<open>sorted(xs, key=key, reverse=True)\<close>:
  Python's sort is stable, also with \<^verbatim>\<open>reverse=True\<close>, so elements with equal keys
  keep their order. It is modelled as an insertion sort: an element goes in front of the
  first later element whose key is not larger.
\<close>

fun insort_reverse :: "('a \<Rightarrow> 'k::linorder) \<Rightarrow> 'a \<Rightarrow> 'a list \<Rightarrow> 'a list" where
  "insort_reverse key x [] = [x]"
| "insort_reverse key x (y # ys) =
     (if key y \<le> key x then x # y # ys else y # insort_reverse key x ys)"

definition sort_reverse :: "('a \<Rightarrow> 'k::linorder) \<Rightarrow> 'a list \<Rightarrow> 'a list" where
  "sort_reverse key xs = foldr (insort_reverse key) xs []"

subsection \<open>The detail-scoring stage: \<^verbatim>\<open>RelevanceScorerAgent.process\<close>\<close>

text \<open>
  A scored listing is the job dictionary with the three keys of the score result added
  (\<^verbatim>\<open>scored_job = {**job}\<close> and three assignments, lines 235 to 238); the added keys
  are kept together in the field \<open>score\<close>.
\<close>

record scored_listing = job_listing +
  score :: score_result

definition scored_job :: "job_listing \<Rightarrow> score_result \<Rightarrow> scored_listing" where
  "scored_job job score_result =
     \<lparr>title = title job, location = location job, required_skills = required_skills job,
      score = score_result\<rparr>"

text \<open>
  The workflow state of the agents: the manager's part, and the keys the scoring stage
  reads and writes. \<^verbatim>\<open>resume_data\<close> is \<open>None\<close> when the key is absent or holds
  \<^verbatim>\<open>None\<close>; a parsed profile is a \<^verbatim>\<open>ResumeData\<close> object, which is never falsy.
  \<^verbatim>\<open>job_listings\<close> and \<^verbatim>\<open>feedback\<close> default to the empty list and dictionary.
\<close>

record workflow_state = manager_state +
  resume_data :: "resume option"
  job_listings :: "job_listing list"
  feedback :: preferences
  scored_listings :: "scored_listing list"

text \<open>The loop of lines 230 to 240: the first scoring call that raises ends it.\<close>

fun score_listings ::
  "weights \<Rightarrow> (string \<Rightarrow> score_result option)
     \<Rightarrow> (job_listing \<Rightarrow> resume \<Rightarrow> preferences \<Rightarrow> error + string)
     \<Rightarrow> resume \<Rightarrow> preferences \<Rightarrow> job_listing list \<Rightarrow> error + scored_listing list" where
  "score_listings W loads llm resume_dict prefs [] = Inr []"
| "score_listings W loads llm resume_dict prefs (job # jobs) =
     and_then (score_job W loads llm job resume_dict prefs) (\<lambda>score_result.
     and_then (score_listings W loads llm resume_dict prefs jobs) (\<lambda>rest.
       Inr (scored_job job score_result # rest)))"

text \<open>Line 243: \<^verbatim>\<open>scored_listings.sort(key=lambda x: x["total_score"], reverse=True)\<close>.\<close>

definition rank_listings :: "scored_listing list \<Rightarrow> scored_listing list" where
  "rank_listings scored = sort_reverse (\<lambda>x. total_score (score x)) scored"

text \<open>\<^verbatim>\<open>process(self, state)\<close> (lines 213 to 249).\<close>

definition process ::
  "weights \<Rightarrow> (string \<Rightarrow> score_result option)
     \<Rightarrow> (job_listing \<Rightarrow> resume \<Rightarrow> preferences \<Rightarrow> error + string)
     \<Rightarrow> workflow_state \<Rightarrow> error + workflow_state" where
  "process W loads llm state =
     (case resume_data state of
        None \<Rightarrow> Inr (state\<lparr>analysis_complete := True, scored_listings := []\<rparr>)
      | Some resume_dict \<Rightarrow>
          if job_listings state = []
          then Inr (state\<lparr>analysis_complete := True, scored_listings := []\<rparr>)
          else
            and_then (score_listings W loads llm resume_dict (feedback state) (job_listings state))
              (\<lambda>scored.
                Inr (state\<lparr>analysis_complete := True,
                           scored_listings := rank_listings scored\<rparr>)))"

subsection \<open>Skill statistics of the notifier\<close>





subsection \<open>Raw job records\<close>

text \<open>
  A raw job record is an untyped dictionary as a job source returns it: a JSON object,
  whose values are \<^verbatim>\<open>None\<close>, booleans, numbers, strings, lists or objects. A
  normalized record of the scraping agent also holds a \<^verbatim>\<open>datetime\<close>, here a number
  of seconds. A dictionary is an association list in insertion order; the first pair
  with a key is the entry of that key.
\<close>

datatype pyval =
    VNone
  | VBool bool
  | VNum rat
  | VStr string
  | VList "pyval list"
  | VDict "(string \<times> pyval) list"
  | VDate int

type_synonym pydict = "(string \<times> pyval) list"

text \<open>\<^verbatim>\<open>d.get(key, default)\<close>; \<^verbatim>\<open>d.get(key)\<close> is \<open>dget d key VNone\<close>.\<close>

definition dget :: "pydict \<Rightarrow> string \<Rightarrow> pyval \<Rightarrow> pyval" where
  "dget d k dflt = (case map_of d k of None \<Rightarrow> dflt | Some v \<Rightarrow> v)"

text \<open>The truth value of an object, as \<^verbatim>\<open>not\<close>, \<^verbatim>\<open>or\<close> and \<^verbatim>\<open>if\<close> test it.\<close>

fun truthy :: "pyval \<Rightarrow> bool" where
  "truthy VNone = False"
| "truthy (VBool b) = b"
| "truthy (VNum r) = (r \<noteq> 0)"
| "truthy (VStr s) = (s \<noteq> [])"
| "truthy (VList xs) = (xs \<noteq> [])"
| "truthy (VDict kvs) = (kvs \<noteq> [])"
| "truthy (VDate t) = True"

text \<open>\<^verbatim>\<open>a or b\<close>: the first operand if it is truthy, else the second.\<close>

definition py_or :: "pyval \<Rightarrow> pyval \<Rightarrow> pyval" where
  "py_or a b = (if truthy a then a else b)"

text \<open>
  \<^verbatim>\<open>needle in v\<close> for a string \<open>needle\<close>: a substring test on a string, a membership
  test on a list, a key test on a dictionary, and \<^verbatim>\<open>TypeError\<close> on a value that is not
  a container.
\<close>

fun py_in :: "string \<Rightarrow> pyval \<Rightarrow> error + bool" where
  "py_in needle (VStr s) = Inr (str_in needle s)"
| "py_in needle (VList xs) = Inr (VStr needle \<in> set xs)"
| "py_in needle (VDict kvs) = Inr (needle \<in> fst ` set kvs)"
| "py_in needle VNone = Inl TypeError"
| "py_in needle (VBool b) = Inl TypeError"
| "py_in needle (VNum r) = Inl TypeError"
| "py_in needle (VDate t) = Inl TypeError"

subsection \<open>Normalization in the workflow: \<^verbatim>\<open>standardize_job_data\<close>\<close>

text \<open>
  The field resolutions of \<^verbatim>\<open>standardize_job_data\<close> (main.py, lines 289 to 293):
  chains of \<^verbatim>\<open>job.get(key) or ...\<close> that end in a \<^verbatim>\<open>get\<close> with the default
  \<^verbatim>\<open>""\<close>.
\<close>

definition resolve_title :: "pydict \<Rightarrow> pyval" where
  "resolve_title job =
     py_or (py_or (dget job ''title'' VNone) (dget job ''positionName'' VNone))
           (dget job ''name'' (VStr ''''))"

definition resolve_company :: "pydict \<Rightarrow> pyval" where
  "resolve_company job = py_or (dget job ''company'' VNone) (dget job ''companyName'' (VStr ''''))"

definition resolve_location :: "pydict \<Rightarrow> pyval" where
  "resolve_location job = py_or (dget job ''location'' VNone) (dget job ''place'' (VStr ''''))"

definition resolve_description :: "pydict \<Rightarrow> pyval" where
  "resolve_description job =
     py_or (dget job ''description'' VNone) (dget job ''jobDescription'' (VStr ''''))"

definition resolve_url :: "pydict \<Rightarrow> pyval" where
  "resolve_url job = py_or (dget job ''url'' VNone) (dget job ''applicationLink'' (VStr ''''))"

text \<open>
  \<^verbatim>\<open>standardize_job_data(self, job)\<close> (main.py, lines 285 to 304). The result is
  \<open>None\<close> when the method returns \<^verbatim>\<open>None\<close>: for a record without title or company,
  and from the handler of any exception, which here only the test
  \<^verbatim>\<open>"linkedin.com" in job.get("url", "")\<close> can raise. The source is read from the
  raw \<^verbatim>\<open>url\<close> key, not from the resolved url, and is \<^verbatim>\<open>Indeed\<close> otherwise.
\<close>

definition standardize_job_data :: "pydict \<Rightarrow> pydict option" where
  "standardize_job_data job =
     (case py_in ''linkedin.com'' (dget job ''url'' (VStr '''')) of
        Inl e \<Rightarrow> None
      | Inr is_linkedin \<Rightarrow>
          let standardized =
                [(''title'', resolve_title job),
                 (''company'', resolve_company job),
                 (''location'', resolve_location job),
                 (''description'', resolve_description job),
                 (''url'', resolve_url job),
                 (''source'', VStr (if is_linkedin then ''LinkedIn'' else ''Indeed''))]
          in if \<not> truthy (resolve_title job) \<or> \<not> truthy (resolve_company job) then None
             else Some standardized)"

text \<open>
  \<^verbatim>\<open>standardize_indeed_job(self, job)\<close> (lines 306 to 330). A truthy
  \<^verbatim>\<open>companyInfo\<close> that is not a dictionary has no method \<^verbatim>\<open>get\<close>: the exception is
  caught and the record dropped.
\<close>

definition standardize_indeed_job :: "pydict \<Rightarrow> pydict option" where
  "standardize_indeed_job job =
     (let title0 = dget job ''positionName'' (VStr '''');
          company0 = dget job ''company'' (VStr '''');
          location0 = dget job ''location'' (VStr '''');
          description0 = dget job ''description'' (VStr '''');
          url0 = dget job ''applicationLink'' (VStr '''');
          finish = (\<lambda>description.
            if \<not> truthy title0 \<or> \<not> truthy company0 then None
            else Some [(''title'', title0), (''company'', company0), (''location'', location0),
                       (''description'', description), (''url'', url0),
                       (''source'', VStr ''Indeed'')])
      in if truthy (dget job ''companyInfo'' VNone) then
           (case dget job ''companyInfo'' VNone of
              VDict info \<Rightarrow>
                if truthy (dget info ''companyDescription'' VNone) \<and> \<not> truthy description0
                then finish (dget info ''companyDescription'' VNone)
                else finish description0
            | _ \<Rightarrow> None)
         else finish description0)"

text \<open>
  The loops of \<^verbatim>\<open>search_jobs\<close> over the items the two sources returned (lines 209,
  249 to 256, 266 to 275): at most \<^verbatim>\<open>JOBS_PER_SOURCE\<close> items of each source are
  read, the Indeed items go through \<^verbatim>\<open>standardize_indeed_job\<close> first, and all go
  through \<^verbatim>\<open>standardize_job_data\<close>, which stops at twice that number of records.
\<close>

definition JOBS_PER_SOURCE :: nat where
  "JOBS_PER_SOURCE = 10"

fun indeed_loop :: "pydict list \<Rightarrow> pydict list \<Rightarrow> pydict list" where
  "indeed_loop indeed_jobs [] = indeed_jobs"
| "indeed_loop indeed_jobs (job # rest) =
     (case standardize_indeed_job job of
        None \<Rightarrow> indeed_loop indeed_jobs rest
      | Some standardized_job \<Rightarrow>
          if JOBS_PER_SOURCE \<le> length (indeed_jobs @ [standardized_job])
          then indeed_jobs @ [standardized_job]
          else indeed_loop (indeed_jobs @ [standardized_job]) rest)"

fun standardize_loop :: "pydict list \<Rightarrow> pydict list \<Rightarrow> pydict list" where
  "standardize_loop standardized_jobs [] = standardized_jobs"
| "standardize_loop standardized_jobs (job # rest) =
     (if JOBS_PER_SOURCE * 2 \<le> length standardized_jobs then standardized_jobs
      else case standardize_job_data job of
             None \<Rightarrow> standardize_loop standardized_jobs rest
           | Some standardized_job \<Rightarrow> standardize_loop (standardized_jobs @ [standardized_job]) rest)"

definition search_jobs :: "pydict list \<Rightarrow> pydict list \<Rightarrow> pydict list" where
  "search_jobs linkedin_jobs_raw indeed_jobs_raw =
     standardize_loop []
       (take JOBS_PER_SOURCE linkedin_jobs_raw
        @ indeed_loop [] (take JOBS_PER_SOURCE indeed_jobs_raw))"

subsection \<open>Normalization in the scraping agent: \<^verbatim>\<open>_normalize_job_data\<close>\<close>

text \<open>\<^verbatim>\<open>s.replace('Z', '+00:00')\<close>.\<close>

definition replace_Z :: "string \<Rightarrow> string" where
  "replace_Z s = concat (map (\<lambda>c. if c = CHR ''Z'' then ''+00:00'' else [c]) s)"

definition seconds_per_day :: int where
  "seconds_per_day = 86400"

text \<open>
  \<^verbatim>\<open>_normalize_job_data(self, job)\<close> (job\_scraper.py, lines 132 to 153). Three things
  come from outside and are parameters: \<open>job_hash\<close> is \<^verbatim>\<open>str(hash(str(job)))\<close>,
  \<open>fromisoformat\<close> is \<^verbatim>\<open>datetime.fromisoformat\<close> with \<open>None\<close> for
  \<^verbatim>\<open>ValueError\<close>, and \<open>now\<close> is the clock \<^verbatim>\<open>datetime.now()\<close>. The defaults of
  \<^verbatim>\<open>get\<close> apply to absent keys only. There is no exception handler: a
  \<^verbatim>\<open>TypeError\<close> of the test \<^verbatim>\<open>"linkedin" in job.get("url", "")\<close> propagates.
  Every record that is read is returned; none is dropped.
\<close>

definition normalize_job_data ::
  "(pydict \<Rightarrow> string) \<Rightarrow> (string \<Rightarrow> int option) \<Rightarrow> int \<Rightarrow> pydict \<Rightarrow> error + pydict" where
  "normalize_job_data job_hash fromisoformat now job =
     and_then (py_in ''linkedin'' (dget job ''url'' (VStr ''''))) (\<lambda>is_linkedin.
       let normalized =
             [(''job_id'', dget job ''id'' (dget job ''jobId'' (VStr (job_hash job)))),
              (''title'', dget job ''title'' (dget job ''name'' (VStr ''Unknown Position''))),
              (''company'', dget job ''company'' (dget job ''companyName'' (VStr ''Unknown Company''))),
              (''location'', dget job ''location'' (dget job ''place'' (VStr ''Unknown Location''))),
              (''url'', dget job ''url'' (dget job ''link'' (dget job ''applicationLink'' (VStr '''')))),
              (''source'', VStr (if is_linkedin then ''LinkedIn'' else ''Indeed''))];
           posted_date = dget job ''postedDate'' (dget job ''date'' (dget job ''listedAt'' VNone));
           week_ago = VDate (now - 7 * seconds_per_day)
       in Inr (normalized @
                [(''posted_date'',
                  (case posted_date of
                     VStr s \<Rightarrow> (case fromisoformat (replace_Z s) of
                                  Some t \<Rightarrow> VDate t
                                | None \<Rightarrow> week_ago)
                   | _ \<Rightarrow> week_ago))]))"

subsection \<open>Scoring and ranking in the workflow: \<^verbatim>\<open>score_jobs\<close>\<close>

text \<open>\<^verbatim>\<open>d[key] = value\<close>: an old key keeps its place, a new key is appended.\<close>

definition dset :: "pydict \<Rightarrow> string \<Rightarrow> pyval \<Rightarrow> pydict" where
  "dset d k v =
     (if k \<in> fst ` set d then map (\<lambda>(k', v'). if k' = k then (k', v) else (k', v')) d
      else d @ [(k, v)])"

text \<open>
  \<^verbatim>\<open>isinstance(v, (int, float))\<close> holds of numbers and of booleans, which count as
  1 and 0. A product \<^verbatim>\<open>v * w\<close> with a float \<open>w\<close> raises \<^verbatim>\<open>TypeError\<close> for any
  other value.
\<close>

fun is_number :: "pyval \<Rightarrow> bool" where
  "is_number (VNum r) = True"
| "is_number (VBool b) = True"
| "is_number v = False"

fun number_of :: "pyval \<Rightarrow> rat" where
  "number_of (VNum r) = r"
| "number_of (VBool b) = (if b then 1 else 0)"
| "number_of v = 0"

definition times :: "pyval \<Rightarrow> rat \<Rightarrow> error + rat" where
  "times v w = (if is_number v then Inr (number_of v * w) else Inl TypeError)"

text \<open>\<^verbatim>\<open>weights.get(key, default)\<close>.\<close>

definition weight_or :: "weights \<Rightarrow> string \<Rightarrow> rat \<Rightarrow> rat" where
  "weight_or W k dflt = (case map_of W k of None \<Rightarrow> dflt | Some w \<Rightarrow> w)"

text \<open>
  One of the four guarded additions of lines 398 to 405: the weighted score of a
  category, when the reply has the category as an object with a \<^verbatim>\<open>score\<close>, else
  nothing.
\<close>

definition category_term :: "weights \<Rightarrow> pydict \<Rightarrow> string \<Rightarrow> rat \<Rightarrow> error + rat" where
  "category_term W scores category dflt =
     (case map_of scores category of
        Some (VDict entry) \<Rightarrow>
          (case map_of entry ''score'' of
             Some v \<Rightarrow> times v (weight_or W category dflt)
           | None \<Rightarrow> Inr 0)
      | _ \<Rightarrow> Inr 0)"

text \<open>
  Lines 393 to 407: a reply without a numeric \<^verbatim>\<open>total_score\<close> gets the weighted sum
  of its category scores as total.
\<close>

definition ensure_total_score :: "weights \<Rightarrow> pydict \<Rightarrow> error + pydict" where
  "ensure_total_score W scores =
     (if ''total_score'' \<notin> fst ` set scores \<or> \<not> is_number (dget scores ''total_score'' VNone)
      then
        and_then (category_term W scores ''skills_match'' (3 / 10)) (\<lambda>t1.
        and_then (category_term W scores ''experience_match'' (25 / 100)) (\<lambda>t2.
        and_then (category_term W scores ''location_match'' (25 / 100)) (\<lambda>t3.
        and_then (category_term W scores ''company_fit'' (2 / 10)) (\<lambda>t4.
          Inr (dset scores ''total_score'' (VNum (0 + t1 + t2 + t3 + t4)))))))
      else Inr scores)"

text \<open>The basic score of the exception handler (lines 426 to 436).\<close>

definition basic_entry :: pyval where
  "basic_entry =
     VDict [(''score'', VNum 70),
            (''explanation'', VStr ''Basic score due to error in detailed scoring.'')]"

definition basic_score :: pydict where
  "basic_score =
     [(''skills_match'', basic_entry),
      (''experience_match'', basic_entry),
      (''location_match'', basic_entry),
      (''company_fit'', basic_entry),
      (''total_score'', VNum 70),
      (''explanation'', VStr ''Basic score due to error in detailed scoring.'')]"

text \<open>
  The body of the loop of \<^verbatim>\<open>score_jobs\<close> (lines 341 to 437) for one job. The
  collaborator is the parameter \<open>reply\<close>, which stands for lines 342 to 391: \<open>Inl e\<close>
  when building the prompt or calling the model raises, which leaves the loop;
  \<open>Inr None\<close> when the content of the response is not a JSON object, which every path
  of the code answers with the basic score; and \<open>Inr (Some scores)\<close> for a JSON object.
  The charging call is taken not to raise.
\<close>

definition score_one :: "weights \<Rightarrow> (pydict \<Rightarrow> error + pydict option) \<Rightarrow> pydict \<Rightarrow> error + pydict" where
  "score_one W reply job =
     and_then (reply job) (\<lambda>parsed.
       case parsed of
         None \<Rightarrow> Inr (dset (dset job ''match_score'' (VDict basic_score)) ''total_score'' (VNum 70))
       | Some scores \<Rightarrow>
           (case ensure_total_score W scores of
              Inl e \<Rightarrow>
                Inr (dset (dset job ''match_score'' (VDict basic_score)) ''total_score'' (VNum 70))
            | Inr scores' \<Rightarrow>
                Inr (dset (dset job ''match_score'' (VDict scores')) ''total_score''
                       (dget scores' ''total_score'' (VNum 0)))))"

fun score_loop ::
  "weights \<Rightarrow> (pydict \<Rightarrow> error + pydict option) \<Rightarrow> pydict list \<Rightarrow> error + pydict list" where
  "score_loop W reply [] = Inr []"
| "score_loop W reply (job # jobs) =
     and_then (score_one W reply job) (\<lambda>scored_job.
     and_then (score_loop W reply jobs) (\<lambda>rest. Inr (scored_job # rest)))"

text \<open>
  Line 440: \<^verbatim>\<open>scored_jobs.sort(key=lambda x: x.get("total_score", 0), reverse=True)\<close>.
  Every record the loop builds holds a number under the key.
\<close>

definition total_score_key :: "pydict \<Rightarrow> rat" where
  "total_score_key x = number_of (dget x ''total_score'' (VNum 0))"

definition rank_jobs :: "pydict list \<Rightarrow> pydict list" where
  "rank_jobs scored_jobs = sort_reverse total_score_key scored_jobs"

text \<open>
  \<^verbatim>\<open>score_jobs(self, state)\<close> (lines 332 to 448), from the list \<^verbatim>\<open>state["jobs"]\<close>
  to the list \<^verbatim>\<open>state["scored_jobs"]\<close>: the outer handler answers any exception with
  the empty list.
\<close>

definition score_jobs :: "weights \<Rightarrow> (pydict \<Rightarrow> error + pydict option) \<Rightarrow> pydict list \<Rightarrow> pydict list" where
  "score_jobs W reply jobs =
     (case score_loop W reply jobs of
        Inl e \<Rightarrow> []
      | Inr scored_jobs \<Rightarrow> rank_jobs scored_jobs)"

subsection \<open>Skill statistics of the workflow: \<^verbatim>\<open>format_results\<close>\<close>





subsection \<open>Records with string fields, and relabelling\<close>

text \<open>
  A record all of whose values are strings, and the record with its \<^verbatim>\<open>source\<close>
  computed anew from its own \<^verbatim>\<open>url\<close> field: notions used to state what a second
  normalization does.
\<close>

fun is_str :: "pyval \<Rightarrow> bool" where
  "is_str (VStr s) = True"
| "is_str v = False"

definition str_valued :: "pydict \<Rightarrow> bool" where
  "str_valued job = list_all (\<lambda>(k, v). is_str v) job"

fun text_of :: "pyval \<Rightarrow> string" where
  "text_of (VStr s) = s"
| "text_of v = []"

definition relabel :: "string \<Rightarrow> pydict \<Rightarrow> pydict" where
  "relabel marker r =
     dset r ''source''
       (VStr (if str_in marker (text_of (dget r ''url'' (VStr ''''))) then ''LinkedIn''
              else ''Indeed''))"

subsection \<open>Sample inputs\<close>

text \<open>
  The job, profile and preferences of the end-to-end example: a software-engineer posting
  in New York that asks for Python, and a candidate who wants that role there.
\<close>

definition sample_job :: job_listing where
  "sample_job =
     \<lparr>title = Some ''Software Engineer'', location = Some ''New York, NY'',
      required_skills = Some [''Python'']\<rparr>"

definition sample_resume :: resume where
  "sample_resume =
     \<lparr>desired_role = Some ''Software Engineer'', skills = Some [''Python'', ''SQL''],
      location_preference = Some ''New York, NY''\<rparr>"

definition sample_preferences :: preferences where
  "sample_preferences = \<lparr>work_mode_preference = Some ''Any''\<rparr>"

text \<open>A reasoning collaborator whose every reply is prose, and a parser that rejects it.\<close>

definition prose_llm :: "job_listing \<Rightarrow> resume \<Rightarrow> preferences \<Rightarrow> error + string" where
  "prose_llm job resume_dict prefs = Inr ''This job looks like a good match.''"

definition reject_all :: "string \<Rightarrow> score_result option" where
  "reject_all s = None"

text \<open>
  The categories whose weights \<^verbatim>\<open>_manual_score_job\<close> looks up (lines 102 to 107), and
  a table that has all six, with weights that sum to 2.
\<close>

definition score_categories :: "string list" where
  "score_categories =
     [''position_match'', ''skills_experience'', ''location'', ''company_match'',
      ''salary_match'', ''benefits'']"

definition doubled_weights :: weights where
  "doubled_weights =
     [(''position_match'', 50 / 100),
      (''skills_experience'', 60 / 100),
      (''location'', 30 / 100),
      (''company_match'', 30 / 100),
      (''salary_match'', 20 / 100),
      (''benefits'', 10 / 100)]"

text \<open>A workflow state before the scoring stage, with no parsed profile.\<close>

definition state_without_profile :: workflow_state where
  "state_without_profile =
     \<lparr>error_log = [], resume_parsed = False, jobs_scraped = True, analysis_complete = False,
      feedback_processed = False, notification_sent = False,
      current_phase = ''job_scraper'', next_step = ''relevance_scorer'',
      resume_data = None, job_listings = [sample_job], feedback = sample_preferences,
      scored_listings = []\<rparr>"

definition state_without_jobs :: workflow_state where
  "state_without_jobs =
     \<lparr>error_log = [], resume_parsed = True, jobs_scraped = True, analysis_complete = False,
      feedback_processed = False, notification_sent = False,
      current_phase = ''job_scraper'', next_step = ''relevance_scorer'',
      resume_data = Some sample_resume, job_listings = [], feedback = sample_preferences,
      scored_listings = []\<rparr>"

subsection \<open>Order of first mention\<close>




subsection \<open>Sample records and collaborators\<close>

text \<open>
  Raw records: one with an empty title, one complete, one whose only link is an
  application link, one whose url is a short link, and one with an id and a date. The
  stubs stand for the hash, the date parser and the clock of the scraping agent, and for a
  model whose replies are never a JSON object.
\<close>

definition nameless_job :: pydict where
  "nameless_job =
     [(''title'', VStr ''''), (''company'', VStr ''Acme''),
      (''url'', VStr ''https://example.com/jobs/1'')]"

definition acme_job :: pydict where
  "acme_job =
     [(''title'', VStr ''Software Engineer''), (''company'', VStr ''Acme''),
      (''location'', VStr ''New York, NY''),
      (''url'', VStr ''https://www.linkedin.com/jobs/view/1'')]"

definition link_only_job :: pydict where
  "link_only_job =
     [(''title'', VStr ''Software Engineer''), (''company'', VStr ''Acme''),
      (''applicationLink'', VStr ''https://www.linkedin.com/jobs/view/1'')]"

definition short_link_job :: pydict where
  "short_link_job =
     [(''title'', VStr ''Software Engineer''), (''company'', VStr ''Acme''),
      (''url'', VStr ''https://lnkd.in/abc'')]"

definition dated_job :: pydict where
  "dated_job =
     [(''id'', VStr ''abc''), (''title'', VStr ''Software Engineer''), (''company'', VStr ''Acme''),
      (''url'', VStr ''https://www.linkedin.com/jobs/view/1''),
      (''postedDate'', VStr ''2024-01-15T00:00:00Z'')]"

definition stub_hash :: "pydict \<Rightarrow> string" where
  "stub_hash job = ''8675309''"

definition stub_fromisoformat :: "string \<Rightarrow> int option" where
  "stub_fromisoformat s = (if s = ''2024-01-15T00:00:00+00:00'' then Some 1705276800 else None)"

definition stub_now :: int where
  "stub_now = 1706000000"

definition no_reply :: "pydict \<Rightarrow> error + pydict option" where
  "no_reply job = Inr None"



text \<open>A standardized record with string fields, written out.\<close>

definition std_record :: "string \<Rightarrow> string \<Rightarrow> string \<Rightarrow> string \<Rightarrow> string \<Rightarrow> string \<Rightarrow> pydict" where
  "std_record t c l d u s =
     [(''title'', VStr t), (''company'', VStr c), (''location'', VStr l),
      (''description'', VStr d), (''url'', VStr u), (''source'', VStr s)]"

section \<open>Properties\<close>

subsection \<open>Dictionaries\<close>

lemma map_of_dset: "map_of (dset d k v) k' = (if k' = k then Some v else map_of d k')"
proof (cases "k \<in> fst ` set d")
  case True
  have "map_of (map (\<lambda>(k', v'). if k' = k then (k', v) else (k', v')) d) k'
      = (if k' = k then (if k \<in> fst ` set d then Some v else None) else map_of d k')"
    by (induction d) (auto split: if_splits)
  with True show ?thesis by (simp add: dset_def)
next
  case False
  then have "map_of d k = None" by (simp add: map_of_eq_None_iff)
  with False show ?thesis by (auto simp: dset_def map_add_def split: option.splits)
qed

lemma dget_dset: "dget (dset d k v) k' dflt = (if k' = k then v else dget d k' dflt)"
  by (simp add: dget_def map_of_dset)

subsection \<open>Descending stable sort\<close>


lemma mset_insort_reverse: "mset (insort_reverse key x ys) = add_mset x (mset ys)"
  by (induction ys) auto

lemma mset_sort_reverse: "mset (sort_reverse key xs) = mset xs"
  by (induction xs) (simp_all add: sort_reverse_def mset_insort_reverse)





subsection \<open>Ranking\<close>

text \<open>
  The totals that the workflow sorts are numbers: every record its scoring loop builds
  holds a number under \<^verbatim>\<open>total_score\<close>.
\<close>

lemma and_then_Inr: "and_then m f = Inr y \<Longrightarrow> \<exists>x. m = Inr x \<and> f x = Inr y"
  by (cases m) auto

lemma score_one_numeric:
  "score_one W reply job = Inr x \<Longrightarrow> is_number (dget x ''total_score'' (VNum 0))"
proof -
  assume a: "score_one W reply job = Inr x"
  have e: "ensure_total_score W scores = Inr scores' \<Longrightarrow>
           is_number (dget scores' ''total_score'' (VNum 0))" for scores scores'
  proof -
    assume h: "ensure_total_score W scores = Inr scores'"
    show ?thesis
    proof (cases "''total_score'' \<notin> fst ` set scores \<or> \<not> is_number (dget scores ''total_score'' VNone)")
      case True
      with h have "and_then (category_term W scores ''skills_match'' (3 / 10)) (\<lambda>t1.
        and_then (category_term W scores ''experience_match'' (25 / 100)) (\<lambda>t2.
        and_then (category_term W scores ''location_match'' (25 / 100)) (\<lambda>t3.
        and_then (category_term W scores ''company_fit'' (2 / 10)) (\<lambda>t4.
          Inr (dset scores ''total_score'' (VNum (0 + t1 + t2 + t3 + t4)))))))
        = Inr scores'"
        by (simp add: ensure_total_score_def)
      then obtain t where "scores' = dset scores ''total_score'' (VNum t)"
        by (auto dest!: and_then_Inr)
      then show ?thesis by (simp add: dget_dset)
    next
      case False
      with h have s: "scores' = scores" by (simp add: ensure_total_score_def)
      from False obtain v where "map_of scores ''total_score'' = Some v"
        by (cases "map_of scores ''total_score''") (auto simp: map_of_eq_None_iff)
      with False show ?thesis by (simp add: s dget_def)
    qed
  qed
  from a show ?thesis
    by (cases "reply job") (auto simp: score_one_def dget_dset e split: option.splits sum.splits)
qed

lemma score_loop_numeric:
  "score_loop W reply jobs = Inr xs \<Longrightarrow>
   \<forall>x \<in> set xs. is_number (dget x ''total_score'' (VNum 0))"
proof (induction jobs arbitrary: xs)
  case Nil
  then show ?case by simp
next
  case (Cons job jobs)
  from Cons.prems obtain y ys where y: "score_one W reply job = Inr y"
    and ys: "score_loop W reply jobs = Inr ys" and xs: "xs = y # ys"
    by (cases "score_one W reply job"; cases "score_loop W reply jobs") auto
  from Cons.IH [OF ys] score_one_numeric [OF y] xs show ?case by auto
qed



subsection \<open>The fallback of the detail scorer\<close>

lemma manual_score_job_settings:
  "manual_score_job FINAL_SCORING_WEIGHTS job rd prefs = Inl (KeyError ''position_match'')"
  by (simp add: manual_score_job_def subscript_def FINAL_SCORING_WEIGHTS_def Let_def)

lemma score_job_invalid_reply:
  assumes "llm job rd prefs = Inr content" and "\<And>s. loads s = None"
  shows "score_job W loads llm job rd prefs = manual_score_job W job rd prefs"
  using assms by (simp add: score_job_def split: option.splits)

lemma score_job_invalid_reply_settings:
  assumes "llm job rd prefs = Inr content" and "\<And>s. loads s = None"
  shows "score_job FINAL_SCORING_WEIGHTS loads llm job rd prefs = Inl (KeyError ''position_match'')"
  using assms by (simp add: score_job_def manual_score_job_settings split: option.splits)

text \<open>
  Claim C1. Given a reasoning collaborator whose replies are never JSON, the per-job
  scoring call is claimed never to raise and to return a deterministic result with a total
  in [0,100]. On the code it raises for every job: the fallback looks up the weight of
  \<^verbatim>\<open>position_match\<close>, a key that \<^verbatim>\<open>FINAL_SCORING_WEIGHTS\<close> does not have, and
  the \<^verbatim>\<open>KeyError\<close> leaves the exception handler. The theorem evaluates the call at
  the sample job, profile and preferences.
\<close>

theorem C1_score_job_raises:
  "score_job FINAL_SCORING_WEIGHTS reject_all prose_llm sample_job sample_resume sample_preferences
     = Inl (KeyError ''position_match'')"
  by (simp add: score_job_def prose_llm_def reject_all_def manual_score_job_settings
           split: option.splits)

text \<open>
  With a table that has the six categories, at the percentages the agent's system prompt
  announces, the fallback returns, but the three fixed scores 70, 65 and 60 enter the
  weighted sum on the scale 0 to 100 while the three computed ones are on the scale 0 to 1,
  and the sum is multiplied by 100: the sample job gets a total of 2070.
\<close>

lemma manual_score_job_six_weights:
  "map_sum id total_score (manual_score_job
     [(''position_match'', 25 / 100), (''skills_experience'', 30 / 100), (''location'', 15 / 100),
      (''company_match'', 15 / 100), (''salary_match'', 10 / 100), (''benefits'', 5 / 100)]
     sample_job sample_resume sample_preferences) = Inr 2070"
  by code_simp

subsection \<open>The weights\<close>

lemma subscript_key: "k \<in> fst ` set d \<Longrightarrow> \<exists>v. subscript d k = Inr v"
  by (cases "map_of d k") (auto simp: subscript_def map_of_eq_None_iff)

text \<open>
  Claim C2, as stated, has the configuration fail fast whenever the supplied weights do
  not sum to 1.0. A table with the six categories and weights that sum to 2 is accepted:
  the scorer returns a result for the sample job.
\<close>

theorem C2_counterexample:
  "sum_list (map snd doubled_weights) = 2
   \<and> \<not> isl (manual_score_job doubled_weights sample_job sample_resume sample_preferences)"
  by (simp add: doubled_weights_def manual_score_job_def subscript_def Let_def)

text \<open>
  Claim C2, amended. The weights of \<^verbatim>\<open>FINAL_SCORING_WEIGHTS\<close> sum to 1.0. Nothing
  validates a table of weights: whenever a table defines the six categories that the
  deterministic scorer looks up, the scorer returns a result and raises nothing, whatever
  the weights sum to.
\<close>

theorem C2_weights:
  "sum_list (map snd FINAL_SCORING_WEIGHTS) = 1
   \<and> (set score_categories \<subseteq> fst ` set W \<longrightarrow> \<not> isl (manual_score_job W job rd prefs))"
proof -
  have "\<not> isl (manual_score_job W job rd prefs)" if sub: "set score_categories \<subseteq> fst ` set W"
  proof -
    from sub have keys: "''position_match'' \<in> fst ` set W" "''skills_experience'' \<in> fst ` set W"
      "''location'' \<in> fst ` set W" "''company_match'' \<in> fst ` set W"
      "''salary_match'' \<in> fst ` set W" "''benefits'' \<in> fst ` set W"
      by (simp_all add: score_categories_def)
    from keys(1) obtain w1 where w1: "subscript W ''position_match'' = Inr w1"
      using subscript_key by blast
    from keys(2) obtain w2 where w2: "subscript W ''skills_experience'' = Inr w2"
      using subscript_key by blast
    from keys(3) obtain w3 where w3: "subscript W ''location'' = Inr w3"
      using subscript_key by blast
    from keys(4) obtain w4 where w4: "subscript W ''company_match'' = Inr w4"
      using subscript_key by blast
    from keys(5) obtain w5 where w5: "subscript W ''salary_match'' = Inr w5"
      using subscript_key by blast
    from keys(6) obtain w6 where w6: "subscript W ''benefits'' = Inr w6"
      using subscript_key by blast
    show ?thesis
      by (simp add: manual_score_job_def Let_def w1 w2 w3 w4 w5 w6)
  qed
  moreover have "sum_list (map snd FINAL_SCORING_WEIGHTS) = 1"
    by (simp add: FINAL_SCORING_WEIGHTS_def)
  ultimately show ?thesis by blast
qed

theorem C2_weights_witness:
  "set score_categories \<subseteq> fst ` set doubled_weights
   \<and> sum_list (map snd doubled_weights) \<noteq> 1
   \<and> sum_list (map snd FINAL_SCORING_WEIGHTS) = 1
   \<and> \<not> isl (manual_score_job doubled_weights sample_job sample_resume sample_preferences)"
  using C2_weights [of doubled_weights sample_job sample_resume sample_preferences]
  by (simp add: score_categories_def doubled_weights_def)

subsection \<open>Empty input of the scoring stage\<close>

text \<open>
  Claim C8. For every workflow state in which the candidate profile is missing or the job
  list is empty, the detail-scoring stage returns the state with an empty scored list and
  \<^verbatim>\<open>analysis_complete\<close> set, and changes nothing else: it raises no exception and
  the error log is the one it received.
\<close>

theorem C8_process_empty_input:
  "resume_data state = None \<or> job_listings state = [] \<Longrightarrow>
   process W loads llm state = Inr (state\<lparr>analysis_complete := True, scored_listings := []\<rparr>)
   \<and> error_log (state\<lparr>analysis_complete := True, scored_listings := []\<rparr>) = error_log state"
  by (auto simp: process_def split: option.splits)

theorem C8_process_empty_input_witness:
  "(resume_data state_without_profile = None \<or> job_listings state_without_profile = [])
   \<and> process FINAL_SCORING_WEIGHTS reject_all prose_llm state_without_profile
       = Inr (state_without_profile\<lparr>analysis_complete := True, scored_listings := []\<rparr>)
   \<and> (resume_data state_without_jobs = None \<or> job_listings state_without_jobs = [])
   \<and> process FINAL_SCORING_WEIGHTS reject_all prose_llm state_without_jobs
       = Inr (state_without_jobs\<lparr>analysis_complete := True, scored_listings := []\<rparr>)"
  using C8_process_empty_input [of state_without_profile FINAL_SCORING_WEIGHTS reject_all prose_llm]
    C8_process_empty_input [of state_without_jobs FINAL_SCORING_WEIGHTS reject_all prose_llm]
  by (simp add: state_without_profile_def state_without_jobs_def)

subsection \<open>Skill statistics\<close>














subsection \<open>Normalization keeps only records with a title and a company\<close>

lemma standardize_job_data_SomeD:
  assumes "standardize_job_data job = Some r"
  shows "truthy (resolve_title job)" "truthy (resolve_company job)"
    "\<exists>b. py_in ''linkedin.com'' (dget job ''url'' (VStr '''')) = Inr b
        \<and> r = [(''title'', resolve_title job), (''company'', resolve_company job),
               (''location'', resolve_location job), (''description'', resolve_description job),
               (''url'', resolve_url job),
               (''source'', VStr (if b then ''LinkedIn'' else ''Indeed''))]"
  using assms by (auto simp: standardize_job_data_def Let_def split: sum.splits if_splits)

lemma standardize_job_data_fields:
  assumes "standardize_job_data job = Some r"
  shows "dget r ''title'' VNone = resolve_title job" "dget r ''company'' VNone = resolve_company job"
  using standardize_job_data_SomeD(3) [OF assms] by (auto simp: dget_def)

lemma length_standardize_loop:
  "length (standardize_loop acc jobs) \<le> length acc + length jobs"
proof (induction jobs arbitrary: acc)
  case Nil
  show ?case by simp
next
  case (Cons job jobs)
  show ?case
  proof (cases "standardize_job_data job")
    case None
    with Cons [of acc] show ?thesis by simp
  next
    case (Some s)
    with Cons [of "acc @ [s]"] show ?thesis by simp
  qed
qed

lemma set_standardize_loop:
  "set (standardize_loop acc jobs)
     \<subseteq> set acc \<union> {r. \<exists>job \<in> set jobs. standardize_job_data job = Some r}"
proof (induction jobs arbitrary: acc)
  case Nil
  show ?case by simp
next
  case (Cons job jobs)
  show ?case
  proof (cases "standardize_job_data job")
    case None
    with Cons [of acc] show ?thesis by auto
  next
    case (Some s)
    with Cons [of "acc @ [s]"] show ?thesis by auto
  qed
qed

subsection \<open>Scored records come from the records given\<close>

lemma set_sort_reverse: "set (sort_reverse key xs) = set xs"
  using mset_sort_reverse [of key xs] by (metis set_mset_mset)

lemma score_one_shape:
  "score_one W reply job = Inr x \<Longrightarrow> \<exists>m t. x = dset (dset job ''match_score'' m) ''total_score'' t"
  by (cases "reply job") (auto simp: score_one_def split: option.splits sum.splits)

lemma score_loop_shape:
  "score_loop W reply jobs = Inr xs \<Longrightarrow>
   \<forall>x \<in> set xs. \<exists>job \<in> set jobs. \<exists>m t. x = dset (dset job ''match_score'' m) ''total_score'' t"
proof (induction jobs arbitrary: xs)
  case Nil
  then show ?case by simp
next
  case (Cons job jobs)
  from Cons.prems obtain y ys where y: "score_one W reply job = Inr y"
    and ys: "score_loop W reply jobs = Inr ys" and xs: "xs = y # ys"
    by (cases "score_one W reply job"; cases "score_loop W reply jobs") auto
  from Cons.IH [OF ys] score_one_shape [OF y] xs show ?case by auto
qed

lemma score_jobs_shape:
  "x \<in> set (score_jobs W reply jobs) \<Longrightarrow>
   \<exists>job \<in> set jobs. \<exists>m t. x = dset (dset job ''match_score'' m) ''total_score'' t"
  using score_loop_shape [of W reply jobs]
  by (cases "score_loop W reply jobs") (auto simp: score_jobs_def rank_jobs_def set_sort_reverse)

subsection \<open>A second normalization of records with string fields\<close>

lemma str_valued_map_of: "str_valued job \<Longrightarrow> map_of job k = Some v \<Longrightarrow> is_str v"
  by (auto simp: str_valued_def list_all_iff dest!: map_of_SomeD)

lemma is_str_iff: "is_str v \<longleftrightarrow> (\<exists>s. v = VStr s)"
  by (cases v) auto

lemma str_valued_dget_str: "str_valued job \<Longrightarrow> \<exists>s. dget job k (VStr d) = VStr s"
  by (cases "map_of job k") (auto simp: dget_def is_str_iff dest: str_valued_map_of)

lemma str_valued_dget_none:
  "str_valued job \<Longrightarrow> dget job k VNone = VNone \<or> (\<exists>s. dget job k VNone = VStr s)"
  by (cases "map_of job k") (auto simp: dget_def is_str_iff dest: str_valued_map_of)

lemma py_or_str:
  assumes "a = VNone \<or> (\<exists>s. a = VStr s)" and "\<exists>s. b = VStr s"
  shows "\<exists>s. py_or a b = VStr s"
  using assms by (auto simp: py_or_def)

lemma str_valued_resolve:
  assumes "str_valued job"
  shows "\<exists>s. resolve_title job = VStr s" "\<exists>s. resolve_company job = VStr s"
    "\<exists>s. resolve_location job = VStr s" "\<exists>s. resolve_description job = VStr s"
    "\<exists>s. resolve_url job = VStr s"
proof -
  note n = str_valued_dget_none [OF assms] and s = str_valued_dget_str [OF assms]
  have "\<exists>s. py_or (dget job ''title'' VNone) (dget job ''positionName'' VNone) = VStr s
        \<or> py_or (dget job ''title'' VNone) (dget job ''positionName'' VNone) = VNone"
    using n [of "''title''"] n [of "''positionName''"] by (auto simp: py_or_def)
  then show "\<exists>s. resolve_title job = VStr s"
    unfolding resolve_title_def using s [of "''name''" "''''"] by (auto simp: py_or_def)
  show "\<exists>s. resolve_company job = VStr s"
    unfolding resolve_company_def by (rule py_or_str [OF n s])
  show "\<exists>s. resolve_location job = VStr s"
    unfolding resolve_location_def by (rule py_or_str [OF n s])
  show "\<exists>s. resolve_description job = VStr s"
    unfolding resolve_description_def by (rule py_or_str [OF n s])
  show "\<exists>s. resolve_url job = VStr s"
    unfolding resolve_url_def by (rule py_or_str [OF n s])
qed

lemma standardize_str_valued:
  assumes sv: "str_valued job" and some: "standardize_job_data job = Some r"
  shows "\<exists>t c l d u s. r = std_record t c l d u s \<and> t \<noteq> [] \<and> c \<noteq> []"
proof -
  from str_valued_resolve [OF sv] obtain t c l d u where
    f: "resolve_title job = VStr t" "resolve_company job = VStr c" "resolve_location job = VStr l"
       "resolve_description job = VStr d" "resolve_url job = VStr u"
    by blast
  from standardize_job_data_SomeD [OF some] f show ?thesis
    by (auto simp: std_record_def)
qed

lemma standardize_std_record:
  "t \<noteq> [] \<Longrightarrow> c \<noteq> [] \<Longrightarrow>
   standardize_job_data (std_record t c l d u s)
     = Some (std_record t c l d u (if str_in ''linkedin.com'' u then ''LinkedIn'' else ''Indeed''))"
  by (auto simp: standardize_job_data_def std_record_def dget_def resolve_title_def
        resolve_company_def resolve_location_def resolve_description_def resolve_url_def
        py_or_def Let_def)

lemma relabel_std_record:
  "relabel m (std_record t c l d u s)
     = std_record t c l d u (if str_in m u then ''LinkedIn'' else ''Indeed'')"
  by (simp add: relabel_def std_record_def dget_def dset_def)

lemma str_valued_std_record: "str_valued (std_record t c l d u s)"
  by (simp add: str_valued_def std_record_def)

lemma standardize_twice:
  assumes sv: "str_valued job" and some: "standardize_job_data job = Some r"
  shows "standardize_job_data r = Some (relabel ''linkedin.com'' r)"
    and "str_valued r"
    and "standardize_job_data (relabel ''linkedin.com'' r) = Some (relabel ''linkedin.com'' r)"
proof -
  from standardize_str_valued [OF sv some] obtain t c l d u s where
    r: "r = std_record t c l d u s" and ne: "t \<noteq> []" "c \<noteq> []"
    by blast
  show "standardize_job_data r = Some (relabel ''linkedin.com'' r)"
    using ne by (simp add: r standardize_std_record relabel_std_record)
  show "str_valued r" by (simp add: r str_valued_std_record)
  show "standardize_job_data (relabel ''linkedin.com'' r) = Some (relabel ''linkedin.com'' r)"
    using ne by (simp add: r standardize_std_record relabel_std_record)
qed

lemma standardize_loop_all_kept:
  "length acc + length rs \<le> JOBS_PER_SOURCE * 2 \<Longrightarrow>
   \<forall>r \<in> set rs. standardize_job_data r = Some (g r) \<Longrightarrow>
   standardize_loop acc rs = acc @ map g rs"
proof (induction rs arbitrary: acc)
  case Nil
  show ?case by simp
next
  case (Cons r rs)
  from Cons.prems have "\<not> JOBS_PER_SOURCE * 2 \<le> length acc" by simp
  moreover from Cons.prems have "standardize_job_data r = Some (g r)" by simp
  moreover have "standardize_loop (acc @ [g r]) rs = (acc @ [g r]) @ map g rs"
    using Cons.prems by (intro Cons.IH) simp_all
  ultimately show ?case by simp
qed

lemma standardize_loop_bound:
  "length acc \<le> JOBS_PER_SOURCE * 2 \<Longrightarrow> length (standardize_loop acc jobs) \<le> JOBS_PER_SOURCE * 2"
proof (induction jobs arbitrary: acc)
  case Nil
  then show ?case by simp
next
  case (Cons job jobs)
  show ?case
  proof (cases "JOBS_PER_SOURCE * 2 \<le> length acc")
    case True
    with Cons.prems show ?thesis by simp
  next
    case False
    then show ?thesis
      using Cons.IH [of acc] Cons.IH [of "acc @ [the (standardize_job_data job)]"] Cons.prems
      by (cases "standardize_job_data job") auto
  qed
qed

lemma standardize_loop_twice:
  assumes "list_all str_valued jobs"
  shows "standardize_loop [] (standardize_loop [] jobs)
           = map (relabel ''linkedin.com'') (standardize_loop [] jobs)"
    and "standardize_loop [] (map (relabel ''linkedin.com'') (standardize_loop [] jobs))
           = map (relabel ''linkedin.com'') (standardize_loop [] jobs)"
proof -
  let ?out = "standardize_loop [] jobs"
  have len: "length ?out \<le> JOBS_PER_SOURCE * 2"
    by (rule standardize_loop_bound) simp
  have origin: "\<forall>r \<in> set ?out. \<exists>job \<in> set jobs. standardize_job_data job = Some r"
    using set_standardize_loop [of "[]" jobs] by auto
  have a: "\<forall>r \<in> set ?out. standardize_job_data r = Some (relabel ''linkedin.com'' r)"
    using origin assms standardize_twice(1) by (fastforce simp: list_all_iff)
  have b: "\<forall>r \<in> set (map (relabel ''linkedin.com'') ?out). standardize_job_data r = Some (id r)"
    using origin assms standardize_twice(3) by (fastforce simp: list_all_iff)
  show "standardize_loop [] ?out = map (relabel ''linkedin.com'') ?out"
    using standardize_loop_all_kept [of "[]" ?out "relabel ''linkedin.com''"] len a by simp
  show "standardize_loop [] (map (relabel ''linkedin.com'') ?out) = map (relabel ''linkedin.com'') ?out"
    using standardize_loop_all_kept [of "[]" "map (relabel ''linkedin.com'') ?out" id] len b by simp
qed

subsection \<open>Exclusion of records without title or company\<close>

lemmas std_defs = standardize_job_data_def dget_def resolve_title_def
        resolve_company_def resolve_location_def resolve_description_def resolve_url_def
        py_or_def Let_def JOBS_PER_SOURCE_def

text \<open>
  Claim C3, as stated, has normalization exclude every raw record whose resolved title or
  company is empty. The normalizer of the scraping agent returns such a record: for a raw
  record with the title \<^verbatim>\<open>""\<close>, the default \<^verbatim>\<open>Unknown Position\<close> does not
  apply, since the key is present, and the normalized record has the empty title.
\<close>

theorem C3_counterexample:
  "normalize_job_data stub_hash stub_fromisoformat stub_now nameless_job
     = Inr [(''job_id'', VStr ''8675309''), (''title'', VStr ''''), (''company'', VStr ''Acme''),
            (''location'', VStr ''Unknown Location''), (''url'', VStr ''https://example.com/jobs/1''),
            (''source'', VStr ''Indeed''), (''posted_date'', VDate 1705395200)]"
  by (simp add: normalize_job_data_def nameless_job_def dget_def stub_hash_def stub_now_def
        seconds_per_day_def Let_def)

text \<open>
  Claim C3, amended. For every raw job record whose resolved title or company is empty
  (falsy), the normalizer of the workflow, \<^verbatim>\<open>standardize_job_data\<close>, excludes it.
  The normalized list is no longer than the input list; every record in it has a
  non-empty title and a non-empty company and is the normalization of an input record;
  and every record that \<^verbatim>\<open>score_jobs\<close> returns for the normalized list agrees with a
  record of that list on every key but the two score keys, so it has a non-empty title
  and company too: an excluded record appears in no scoring or ranking output.
\<close>

theorem C3_standardize_excludes:
  "length (standardize_loop [] jobs) \<le> length jobs
   \<and> (\<forall>r \<in> set (standardize_loop [] jobs).
         truthy (dget r ''title'' VNone) \<and> truthy (dget r ''company'' VNone)
         \<and> (\<exists>job \<in> set jobs. standardize_job_data job = Some r))
   \<and> (\<not> truthy (resolve_title raw) \<or> \<not> truthy (resolve_company raw)
        \<longrightarrow> standardize_job_data raw = None)
   \<and> (\<forall>x \<in> set (score_jobs W reply (standardize_loop [] jobs)).
         truthy (dget x ''title'' VNone) \<and> truthy (dget x ''company'' VNone)
         \<and> (\<exists>r \<in> set (standardize_loop [] jobs).
               \<forall>k. k \<noteq> ''match_score'' \<and> k \<noteq> ''total_score'' \<longrightarrow> map_of x k = map_of r k))"
proof -
  let ?out = "standardize_loop [] jobs"
  have len: "length ?out \<le> length jobs"
    using length_standardize_loop [of "[]" jobs] by simp
  have kept: "truthy (dget r ''title'' VNone) \<and> truthy (dget r ''company'' VNone)
              \<and> (\<exists>job \<in> set jobs. standardize_job_data job = Some r)" if "r \<in> set ?out" for r
  proof -
    from that set_standardize_loop [of "[]" jobs]
    obtain job where job: "job \<in> set jobs" "standardize_job_data job = Some r" by auto
    from standardize_job_data_fields [OF job(2)] standardize_job_data_SomeD(1,2) [OF job(2)] job
    show ?thesis by auto
  qed
  have drop: "standardize_job_data raw = None"
    if "\<not> truthy (resolve_title raw) \<or> \<not> truthy (resolve_company raw)"
    using that by (auto simp: standardize_job_data_def Let_def split: sum.splits)
  have scored: "truthy (dget x ''title'' VNone) \<and> truthy (dget x ''company'' VNone)
         \<and> (\<exists>r \<in> set ?out. \<forall>k. k \<noteq> ''match_score'' \<and> k \<noteq> ''total_score''
                \<longrightarrow> map_of x k = map_of r k)"
    if "x \<in> set (score_jobs W reply ?out)" for x
  proof -
    from score_jobs_shape [OF that] obtain r m t where
      r: "r \<in> set ?out" and x: "x = dset (dset r ''match_score'' m) ''total_score'' t"
      by blast
    have same: "map_of x k = map_of r k" if "k \<noteq> ''match_score'' \<and> k \<noteq> ''total_score''" for k
      using that by (simp add: x map_of_dset)
    have "dget x ''title'' VNone = dget r ''title'' VNone"
      "dget x ''company'' VNone = dget r ''company'' VNone"
      by (simp_all add: x dget_dset)
    with kept [OF r] r same show ?thesis by auto
  qed
  from len kept drop scored show ?thesis by blast
qed

theorem C3_standardize_excludes_witness:
  "\<not> truthy (resolve_title nameless_job)
   \<and> standardize_job_data nameless_job = None
   \<and> standardize_loop [] [nameless_job, acme_job]
       = [[(''title'', VStr ''Software Engineer''), (''company'', VStr ''Acme''),
           (''location'', VStr ''New York, NY''), (''description'', VStr ''''),
           (''url'', VStr ''https://www.linkedin.com/jobs/view/1''),
           (''source'', VStr ''LinkedIn'')]]
   \<and> length (standardize_loop [] [nameless_job, acme_job]) \<le> length [nameless_job, acme_job]
   \<and> map (\<lambda>x. (dget x ''title'' VNone, dget x ''total_score'' VNone))
        (score_jobs FINAL_SCORING_WEIGHTS no_reply (standardize_loop [] [nameless_job, acme_job]))
       = [(VStr ''Software Engineer'', VNum 70)]"
  using C3_standardize_excludes
    [of "[nameless_job, acme_job]" nameless_job FINAL_SCORING_WEIGHTS no_reply]
  by (simp add: nameless_job_def acme_job_def std_defs score_jobs_def score_one_def no_reply_def
        rank_jobs_def sort_reverse_def dset_def basic_score_def)

subsection \<open>Source attribution\<close>

text \<open>
  Claim C9, as stated, attributes the caller's source tag to a record whose URL does not
  contain \<^verbatim>\<open>linkedin.com\<close>, and \<^verbatim>\<open>LinkedIn\<close> exactly when the URL contains it. A
  record that the LinkedIn source returned with a short link as url is attributed to
  \<^verbatim>\<open>Indeed\<close>; and a record whose URL is resolved from its application link, which
  contains \<^verbatim>\<open>linkedin.com\<close>, is attributed to \<^verbatim>\<open>Indeed\<close> as well.
\<close>

theorem C9_counterexample:
  "search_jobs [short_link_job] []
     = [[(''title'', VStr ''Software Engineer''), (''company'', VStr ''Acme''),
         (''location'', VStr ''''), (''description'', VStr ''''),
         (''url'', VStr ''https://lnkd.in/abc''), (''source'', VStr ''Indeed'')]]
   \<and> standardize_job_data link_only_job
     = Some [(''title'', VStr ''Software Engineer''), (''company'', VStr ''Acme''),
             (''location'', VStr ''''), (''description'', VStr ''''),
             (''url'', VStr ''https://www.linkedin.com/jobs/view/1''),
             (''source'', VStr ''Indeed'')]"
  by (simp add: search_jobs_def short_link_job_def link_only_job_def std_defs)

text \<open>
  Claim C9, amended. For every raw job record that normalization keeps and whose raw
  \<^verbatim>\<open>url\<close> key holds a string (an absent key reads as the empty string), the
  workflow normalizer attributes the source \<^verbatim>\<open>LinkedIn\<close> exactly when that string
  contains \<^verbatim>\<open>linkedin.com\<close>, and the normalizer of the scraping agent exactly when it
  contains \<^verbatim>\<open>linkedin\<close>; otherwise both attribute the fixed source \<^verbatim>\<open>Indeed\<close>.
  No source tag is passed in by the caller.
\<close>

theorem C9_source_attribution:
  "(standardize_job_data job = Some r \<and> dget job ''url'' (VStr '''') = VStr u
      \<longrightarrow> dget r ''source'' VNone
            = VStr (if str_in ''linkedin.com'' u then ''LinkedIn'' else ''Indeed''))
   \<and> (normalize_job_data job_hash fromisoformat now job = Inr r' \<and> dget job ''url'' (VStr '''') = VStr u
      \<longrightarrow> dget r' ''source'' VNone
            = VStr (if str_in ''linkedin'' u then ''LinkedIn'' else ''Indeed''))"
proof -
  have a: "dget r ''source'' VNone = VStr (if str_in ''linkedin.com'' u then ''LinkedIn'' else ''Indeed'')"
    if "standardize_job_data job = Some r" "dget job ''url'' (VStr '''') = VStr u"
    using standardize_job_data_SomeD(3) [OF that(1)] that(2) by (auto simp: dget_def)
  have b: "dget r' ''source'' VNone = VStr (if str_in ''linkedin'' u then ''LinkedIn'' else ''Indeed'')"
    if "normalize_job_data job_hash fromisoformat now job = Inr r'"
      "dget job ''url'' (VStr '''') = VStr u"
    using that by (auto simp: normalize_job_data_def Let_def dget_def)
  from a b show ?thesis by blast
qed


theorem C9_source_attribution_witness:
  "standardize_job_data short_link_job
     = Some [(''title'', VStr ''Software Engineer''), (''company'', VStr ''Acme''),
             (''location'', VStr ''''), (''description'', VStr ''''),
             (''url'', VStr ''https://lnkd.in/abc''), (''source'', VStr ''Indeed'')]
   \<and> normalize_job_data stub_hash stub_fromisoformat stub_now short_link_job
     = Inr [(''job_id'', VStr ''8675309''), (''title'', VStr ''Software Engineer''),
            (''company'', VStr ''Acme''), (''location'', VStr ''Unknown Location''),
            (''url'', VStr ''https://lnkd.in/abc''),
            (''source'', VStr ''Indeed''), (''posted_date'', VDate 1705395200)]
   \<and> dget short_link_job ''url'' (VStr '''') = VStr ''https://lnkd.in/abc''
   \<and> \<not> str_in ''linkedin.com'' ''https://lnkd.in/abc''
   \<and> \<not> str_in ''linkedin'' ''https://lnkd.in/abc''
   \<and> standardize_job_data acme_job
     = Some [(''title'', VStr ''Software Engineer''), (''company'', VStr ''Acme''),
             (''location'', VStr ''New York, NY''), (''description'', VStr ''''),
             (''url'', VStr ''https://www.linkedin.com/jobs/view/1''),
             (''source'', VStr ''LinkedIn'')]
   \<and> normalize_job_data stub_hash stub_fromisoformat stub_now acme_job
     = Inr [(''job_id'', VStr ''8675309''), (''title'', VStr ''Software Engineer''),
            (''company'', VStr ''Acme''), (''location'', VStr ''New York, NY''),
            (''url'', VStr ''https://www.linkedin.com/jobs/view/1''),
            (''source'', VStr ''LinkedIn''), (''posted_date'', VDate 1705395200)]
   \<and> dget acme_job ''url'' (VStr '''') = VStr ''https://www.linkedin.com/jobs/view/1''
   \<and> str_in ''linkedin.com'' ''https://www.linkedin.com/jobs/view/1''
   \<and> str_in ''linkedin'' ''https://www.linkedin.com/jobs/view/1''"
  using C9_source_attribution
      [of short_link_job
          "[(''title'', VStr ''Software Engineer''), (''company'', VStr ''Acme''),
            (''location'', VStr ''''), (''description'', VStr ''''),
            (''url'', VStr ''https://lnkd.in/abc''), (''source'', VStr ''Indeed'')]"
          "''https://lnkd.in/abc''" stub_hash stub_fromisoformat stub_now
          "[(''job_id'', VStr ''8675309''), (''title'', VStr ''Software Engineer''),
            (''company'', VStr ''Acme''), (''location'', VStr ''Unknown Location''),
            (''url'', VStr ''https://lnkd.in/abc''),
            (''source'', VStr ''Indeed''), (''posted_date'', VDate 1705395200)]"]
    C9_source_attribution
      [of acme_job
          "[(''title'', VStr ''Software Engineer''), (''company'', VStr ''Acme''),
            (''location'', VStr ''New York, NY''), (''description'', VStr ''''),
            (''url'', VStr ''https://www.linkedin.com/jobs/view/1''),
            (''source'', VStr ''LinkedIn'')]"
          "''https://www.linkedin.com/jobs/view/1''" stub_hash stub_fromisoformat stub_now
          "[(''job_id'', VStr ''8675309''), (''title'', VStr ''Software Engineer''),
            (''company'', VStr ''Acme''), (''location'', VStr ''New York, NY''),
            (''url'', VStr ''https://www.linkedin.com/jobs/view/1''),
            (''source'', VStr ''LinkedIn''), (''posted_date'', VDate 1705395200)]"]
  by (simp add: short_link_job_def acme_job_def std_defs normalize_job_data_def
        stub_hash_def stub_fromisoformat_def stub_now_def seconds_per_day_def replace_Z_def)

subsection \<open>Normalizing twice\<close>

lemma str_valued_dget_is_str: "str_valued job \<Longrightarrow> is_str d \<Longrightarrow> is_str (dget job k d)"
  by (cases "map_of job k") (auto simp: dget_def dest: str_valued_map_of)

lemma normalize_twice:
  assumes sv: "str_valued job" and first: "normalize_job_data job_hash fromisoformat now job = Inr r"
  shows "normalize_job_data job_hash' fromisoformat' now' r
     = Inr [(''job_id'', VStr (job_hash' r)),
            (''title'', dget r ''title'' VNone),
            (''company'', dget r ''company'' VNone),
            (''location'', dget r ''location'' VNone),
            (''url'', dget r ''url'' VNone),
            (''source'', VStr (if str_in ''linkedin'' (text_of (dget r ''url'' VNone))
                               then ''LinkedIn'' else ''Indeed'')),
            (''posted_date'', VDate (now' - 7 * seconds_per_day))]"
proof -
  have "is_str (dget job ''url'' (dget job ''link'' (dget job ''applicationLink'' (VStr ''''))))"
    by (intro str_valued_dget_is_str sv) simp
  then obtain u where u: "dget job ''url'' (dget job ''link'' (dget job ''applicationLink'' (VStr ''''))) = VStr u"
    by (auto simp: is_str_iff)
  from str_valued_dget_str [OF sv] obtain u0 where u0: "dget job ''url'' (VStr '''') = VStr u0"
    by blast
  define pd where "pd = (case dget job ''postedDate'' (dget job ''date'' (dget job ''listedAt'' VNone)) of
                     VStr s \<Rightarrow> (case fromisoformat (replace_Z s) of
                                  Some t \<Rightarrow> VDate t
                                | None \<Rightarrow> VDate (now - 7 * seconds_per_day))
                   | _ \<Rightarrow> VDate (now - 7 * seconds_per_day))"
  from first have r: "r = [(''job_id'', dget job ''id'' (dget job ''jobId'' (VStr (job_hash job)))),
              (''title'', dget job ''title'' (dget job ''name'' (VStr ''Unknown Position''))),
              (''company'', dget job ''company'' (dget job ''companyName'' (VStr ''Unknown Company''))),
              (''location'', dget job ''location'' (dget job ''place'' (VStr ''Unknown Location''))),
              (''url'', VStr u),
              (''source'', VStr (if str_in ''linkedin'' u0 then ''LinkedIn'' else ''Indeed'')),
              (''posted_date'', pd)]"
    by (simp add: normalize_job_data_def Let_def u u0 pd_def)
  have g: "dget r ''url'' (VStr '''') = VStr u" "dget r ''url'' VNone = VStr u"
    "dget r ''id'' x = x" "dget r ''jobId'' x = x" "dget r ''name'' x = x"
    "dget r ''companyName'' x = x" "dget r ''place'' x = x" "dget r ''link'' x = x"
    "dget r ''applicationLink'' x = x" "dget r ''postedDate'' x = x" "dget r ''date'' x = x"
    "dget r ''listedAt'' x = x"
    "dget r ''title'' x = dget job ''title'' (dget job ''name'' (VStr ''Unknown Position''))"
    "dget r ''company'' x = dget job ''company'' (dget job ''companyName'' (VStr ''Unknown Company''))"
    "dget r ''location'' x = dget job ''location'' (dget job ''place'' (VStr ''Unknown Location''))"
    for x
    by (simp_all add: r dget_def)
  show ?thesis
    unfolding normalize_job_data_def Let_def g by simp
qed

text \<open>
  Claim C7, as stated, has a second normalization return a list identical to its input.
  In the workflow, a record whose url was resolved from its application link changes its
  source from \<^verbatim>\<open>Indeed\<close> to \<^verbatim>\<open>LinkedIn\<close>. In the scraping agent, with a hash
  whose value is a decimal numeral and a clock that is not a week after the posting date,
  the second normalization replaces \<^verbatim>\<open>job_id\<close> and \<^verbatim>\<open>posted_date\<close>.
\<close>

theorem C7_counterexample:
  "standardize_loop [] [link_only_job]
     = [[(''title'', VStr ''Software Engineer''), (''company'', VStr ''Acme''),
         (''location'', VStr ''''), (''description'', VStr ''''),
         (''url'', VStr ''https://www.linkedin.com/jobs/view/1''),
         (''source'', VStr ''Indeed'')]]
   \<and> standardize_loop [] (standardize_loop [] [link_only_job])
     = [[(''title'', VStr ''Software Engineer''), (''company'', VStr ''Acme''),
         (''location'', VStr ''''), (''description'', VStr ''''),
         (''url'', VStr ''https://www.linkedin.com/jobs/view/1''),
         (''source'', VStr ''LinkedIn'')]]
   \<and> normalize_job_data stub_hash stub_fromisoformat stub_now dated_job
     = Inr [(''job_id'', VStr ''abc''), (''title'', VStr ''Software Engineer''),
            (''company'', VStr ''Acme''), (''location'', VStr ''Unknown Location''),
            (''url'', VStr ''https://www.linkedin.com/jobs/view/1''),
            (''source'', VStr ''LinkedIn''), (''posted_date'', VDate 1705276800)]
   \<and> normalize_job_data stub_hash stub_fromisoformat stub_now
        [(''job_id'', VStr ''abc''), (''title'', VStr ''Software Engineer''),
         (''company'', VStr ''Acme''), (''location'', VStr ''Unknown Location''),
         (''url'', VStr ''https://www.linkedin.com/jobs/view/1''),
         (''source'', VStr ''LinkedIn''), (''posted_date'', VDate 1705276800)]
     = Inr [(''job_id'', VStr ''8675309''), (''title'', VStr ''Software Engineer''),
            (''company'', VStr ''Acme''), (''location'', VStr ''Unknown Location''),
            (''url'', VStr ''https://www.linkedin.com/jobs/view/1''),
            (''source'', VStr ''LinkedIn''), (''posted_date'', VDate 1705395200)]"
  by (simp add: link_only_job_def dated_job_def std_defs normalize_job_data_def
        stub_hash_def stub_fromisoformat_def stub_now_def seconds_per_day_def replace_Z_def)

text \<open>
  Claim C7, amended. For every list of raw records whose values are strings, normalizing
  the normalized list once more in the workflow keeps every record, in order, and changes
  nothing but the \<^verbatim>\<open>source\<close> field, which is computed anew from the record's own
  url (relabelling changes no other key); from the second normalization on, the list no
  longer changes. In the scraping agent, a second normalization of a record with string
  values keeps \<^verbatim>\<open>title\<close>, \<^verbatim>\<open>company\<close>, \<^verbatim>\<open>location\<close> and \<^verbatim>\<open>url\<close>, computes
  \<^verbatim>\<open>source\<close> anew from the url, and replaces \<^verbatim>\<open>job_id\<close> by the hash of the
  normalized record and \<^verbatim>\<open>posted_date\<close> by the clock minus seven days.
\<close>

theorem C7_second_normalization:
  "(list_all str_valued jobs \<longrightarrow>
      standardize_loop [] (standardize_loop [] jobs)
        = map (relabel ''linkedin.com'') (standardize_loop [] jobs)
      \<and> standardize_loop [] (standardize_loop [] (standardize_loop [] jobs))
        = standardize_loop [] (standardize_loop [] jobs))
   \<and> (k \<noteq> ''source'' \<longrightarrow> map_of (relabel marker r) k = map_of r k)
   \<and> (str_valued job \<and> normalize_job_data job_hash fromisoformat now job = Inr n \<longrightarrow>
        normalize_job_data job_hash' fromisoformat' now' n
          = Inr [(''job_id'', VStr (job_hash' n)),
                 (''title'', dget n ''title'' VNone),
                 (''company'', dget n ''company'' VNone),
                 (''location'', dget n ''location'' VNone),
                 (''url'', dget n ''url'' VNone),
                 (''source'', VStr (if str_in ''linkedin'' (text_of (dget n ''url'' VNone))
                                    then ''LinkedIn'' else ''Indeed'')),
                 (''posted_date'', VDate (now' - 7 * seconds_per_day))])"
proof (intro conjI impI)
  assume sv: "list_all str_valued jobs"
  show a1: "standardize_loop [] (standardize_loop [] jobs)
              = map (relabel ''linkedin.com'') (standardize_loop [] jobs)"
    by (rule standardize_loop_twice(1) [OF sv])
  show "standardize_loop [] (standardize_loop [] (standardize_loop [] jobs))
          = standardize_loop [] (standardize_loop [] jobs)"
    unfolding a1 by (rule standardize_loop_twice(2) [OF sv])
next
  assume "k \<noteq> ''source''"
  then show "map_of (relabel marker r) k = map_of r k"
    by (simp add: relabel_def map_of_dset)
next
  assume h: "str_valued job \<and> normalize_job_data job_hash fromisoformat now job = Inr n"
  from h have sv: "str_valued job" and first: "normalize_job_data job_hash fromisoformat now job = Inr n"
    by blast+
  show "normalize_job_data job_hash' fromisoformat' now' n
          = Inr [(''job_id'', VStr (job_hash' n)),
                 (''title'', dget n ''title'' VNone),
                 (''company'', dget n ''company'' VNone),
                 (''location'', dget n ''location'' VNone),
                 (''url'', dget n ''url'' VNone),
                 (''source'', VStr (if str_in ''linkedin'' (text_of (dget n ''url'' VNone))
                                    then ''LinkedIn'' else ''Indeed'')),
                 (''posted_date'', VDate (now' - 7 * seconds_per_day))]"
    by (rule normalize_twice [OF sv first])
qed

theorem C7_second_normalization_witness:
  "list_all str_valued [link_only_job, acme_job]
   \<and> standardize_loop [] [link_only_job, acme_job]
       = [[(''title'', VStr ''Software Engineer''), (''company'', VStr ''Acme''),
           (''location'', VStr ''''), (''description'', VStr ''''),
           (''url'', VStr ''https://www.linkedin.com/jobs/view/1''),
           (''source'', VStr ''Indeed'')],
          [(''title'', VStr ''Software Engineer''), (''company'', VStr ''Acme''),
           (''location'', VStr ''New York, NY''), (''description'', VStr ''''),
           (''url'', VStr ''https://www.linkedin.com/jobs/view/1''),
           (''source'', VStr ''LinkedIn'')]]
   \<and> standardize_loop [] (standardize_loop [] [link_only_job, acme_job])
       = [[(''title'', VStr ''Software Engineer''), (''company'', VStr ''Acme''),
           (''location'', VStr ''''), (''description'', VStr ''''),
           (''url'', VStr ''https://www.linkedin.com/jobs/view/1''),
           (''source'', VStr ''LinkedIn'')],
          [(''title'', VStr ''Software Engineer''), (''company'', VStr ''Acme''),
           (''location'', VStr ''New York, NY''), (''description'', VStr ''''),
           (''url'', VStr ''https://www.linkedin.com/jobs/view/1''),
           (''source'', VStr ''LinkedIn'')]]
   \<and> standardize_loop [] (standardize_loop [] (standardize_loop [] [link_only_job, acme_job]))
       = standardize_loop [] (standardize_loop [] [link_only_job, acme_job])
   \<and> ''url'' \<noteq> ''source''
   \<and> map_of (relabel ''linkedin.com'' acme_job) ''url'' = map_of acme_job ''url''
   \<and> str_valued dated_job
   \<and> normalize_job_data stub_hash stub_fromisoformat stub_now dated_job
       = Inr [(''job_id'', VStr ''abc''), (''title'', VStr ''Software Engineer''),
              (''company'', VStr ''Acme''), (''location'', VStr ''Unknown Location''),
              (''url'', VStr ''https://www.linkedin.com/jobs/view/1''),
              (''source'', VStr ''LinkedIn''), (''posted_date'', VDate 1705276800)]
   \<and> normalize_job_data stub_hash stub_fromisoformat stub_now
        [(''job_id'', VStr ''abc''), (''title'', VStr ''Software Engineer''),
         (''company'', VStr ''Acme''), (''location'', VStr ''Unknown Location''),
         (''url'', VStr ''https://www.linkedin.com/jobs/view/1''),
         (''source'', VStr ''LinkedIn''), (''posted_date'', VDate 1705276800)]
       = Inr [(''job_id'', VStr ''8675309''), (''title'', VStr ''Software Engineer''),
              (''company'', VStr ''Acme''), (''location'', VStr ''Unknown Location''),
              (''url'', VStr ''https://www.linkedin.com/jobs/view/1''),
              (''source'', VStr ''LinkedIn''), (''posted_date'', VDate 1705395200)]"
  using C7_second_normalization
      [of "[link_only_job, acme_job]" "''url''" "''linkedin.com''" acme_job dated_job
          stub_hash stub_fromisoformat stub_now
          "[(''job_id'', VStr ''abc''), (''title'', VStr ''Software Engineer''),
            (''company'', VStr ''Acme''), (''location'', VStr ''Unknown Location''),
            (''url'', VStr ''https://www.linkedin.com/jobs/view/1''),
            (''source'', VStr ''LinkedIn''), (''posted_date'', VDate 1705276800)]"
          stub_hash stub_fromisoformat stub_now]
  by (simp add: link_only_job_def acme_job_def dated_job_def std_defs normalize_job_data_def
        stub_hash_def stub_fromisoformat_def stub_now_def seconds_per_day_def replace_Z_def
        str_valued_def relabel_def dset_def)

subsection \<open>The coordinator\<close>

text \<open>
  Claim C5. For every workflow state whose error log has at least one entry, the
  coordinator's next step is \<^verbatim>\<open>complete\<close> whatever the stage flags are. For every
  state with an empty error log, the next step is the first stage whose flag is unset, the
  flags being inspected in the order \<^verbatim>\<open>resume_parsed\<close>, \<^verbatim>\<open>jobs_scraped\<close>,
  \<^verbatim>\<open>analysis_complete\<close>, \<^verbatim>\<open>feedback_processed\<close>, \<^verbatim>\<open>notification_sent\<close>, and it is
  \<^verbatim>\<open>complete\<close> when all are set. Nothing but the cursor is changed.
\<close>

theorem C5_determine_next_step:
  "(error_log s \<noteq> [] \<longrightarrow> determine_next_step s = s\<lparr>next_step := ''complete''\<rparr>)
   \<and> (error_log s = [] \<longrightarrow>
        next_step (determine_next_step s) =
          (if \<not> resume_parsed s then ''resume_parser''
           else if \<not> jobs_scraped s then ''job_scraper''
           else if \<not> analysis_complete s then ''relevance_scorer''
           else if \<not> feedback_processed s then ''feedback_refiner''
           else if \<not> notification_sent s then ''notification''
           else ''complete'')
        \<and> determine_next_step s = s\<lparr>next_step := next_step (determine_next_step s)\<rparr>)"
  by (simp add: determine_next_step_def)

theorem C5_determine_next_step_witness:
  "error_log \<lparr>error_log = [''scrape failed''], resume_parsed = True, jobs_scraped = False,
       analysis_complete = False, feedback_processed = False, notification_sent = False,
       current_phase = ''job_scraper'', next_step = ''job_scraper''\<rparr> \<noteq> []
   \<and> determine_next_step
       \<lparr>error_log = [''scrape failed''], resume_parsed = True, jobs_scraped = False,
        analysis_complete = False, feedback_processed = False, notification_sent = False,
        current_phase = ''job_scraper'', next_step = ''job_scraper''\<rparr>
     = \<lparr>error_log = [''scrape failed''], resume_parsed = True, jobs_scraped = False,
        analysis_complete = False, feedback_processed = False, notification_sent = False,
        current_phase = ''job_scraper'', next_step = ''complete''\<rparr>
   \<and> error_log \<lparr>error_log = [], resume_parsed = True, jobs_scraped = True,
       analysis_complete = False, feedback_processed = False, notification_sent = False,
       current_phase = ''job_scraper'', next_step = ''job_scraper''\<rparr> = []
   \<and> next_step (determine_next_step
       \<lparr>error_log = [], resume_parsed = True, jobs_scraped = True,
        analysis_complete = False, feedback_processed = False, notification_sent = False,
        current_phase = ''job_scraper'', next_step = ''job_scraper''\<rparr>) = ''relevance_scorer''"
  using C5_determine_next_step
    [of "\<lparr>error_log = [''scrape failed''], resume_parsed = True, jobs_scraped = False,
         analysis_complete = False, feedback_processed = False, notification_sent = False,
         current_phase = ''job_scraper'', next_step = ''job_scraper''\<rparr>"]
    C5_determine_next_step
    [of "\<lparr>error_log = [], resume_parsed = True, jobs_scraped = True,
         analysis_complete = False, feedback_processed = False, notification_sent = False,
         current_phase = ''job_scraper'', next_step = ''job_scraper''\<rparr>"]
  by simp

subsection \<open>The position-match scorer\<close>

text \<open>
  Claim C10. In the deterministic position-match scorer, whenever the job title or the
  desired role is the empty string, the score is exactly 0.5. The test comes before the
  exact-match, substring and word-overlap rules: two empty strings are equal, and still
  score 0.5 rather than 1.0.
\<close>

theorem C10_position_match_empty:
  "job_title = [] \<or> role = [] \<Longrightarrow> score_position_match job_title role = 1 / 2"
  by (simp add: score_position_match_def)

theorem C10_position_match_empty_witness:
  "('''' = [] \<or> ''Software Engineer'' = []) \<and> score_position_match '''' ''Software Engineer'' = 1 / 2
   \<and> (''Barista'' = [] \<or> '''' = []) \<and> score_position_match ''Barista'' '''' = 1 / 2
   \<and> ('''' = [] \<or> '''' = []) \<and> score_position_match '''' '''' = 1 / 2"
  using C10_position_match_empty [of "''''" "''Software Engineer''"]
    C10_position_match_empty [of "''Barista''" "''''"]
    C10_position_match_empty [of "''''" "''''"]
  by simp

end
